theory Spec2Isabelle
  imports Complex_Main
begin

section \<open>JavaScript values\<close>

text \<open>
  The sources are TypeScript. The values they handle are modelled by one datatype of
  JavaScript values. A finite number is an exact rational: the rounding of IEEE doubles
  is not modelled, so \<open>576 - 0.02\<close> is exactly \<open>575.98\<close>. \<open>NaN\<close> is kept, since
  \<open>undefined - 0.02\<close> produces it. An object is the list of its own enumerable
  properties in the order they were written (JavaScript lists keys that are array
  indices first; that reordering is not modelled).
\<close>

datatype jsnum = NaN | Fin rat

datatype jsval =
    JUndefined
  | JNull
  | JBool bool
  | JNum jsnum
  | JStr string
  | JObj "(string \<times> jsval) list"

text \<open>What \<open>if (v)\<close>, \<open>v ? a : b\<close>, \<open>!v\<close> and \<open>a || b\<close> test.\<close>

fun truthy :: "jsval \<Rightarrow> bool" where
  "truthy JUndefined = False"
| "truthy JNull = False"
| "truthy (JBool b) = b"
| "truthy (JNum NaN) = False"
| "truthy (JNum (Fin r)) = (r \<noteq> 0)"
| "truthy (JStr s) = (s \<noteq> [])"
| "truthy (JObj kvs) = True"

text \<open>Decimal digits of a natural number.\<close>

fun show_nat :: "nat \<Rightarrow> string" where
  "show_nat n =
     (if n < 10 then [char_of (48 + n)]
      else show_nat (n div 10) @ [char_of (48 + n mod 10)])"

declare show_nat.simps [simp del]

text \<open>
  The digits after the decimal point of a fraction \<open>0 \<le> f < 1\<close>, at most as many as the
  first argument says.
\<close>

fun frac_digits :: "nat \<Rightarrow> rat \<Rightarrow> string" where
  "frac_digits 0 f = []"
| "frac_digits (Suc n) f =
     (if f = 0 then []
      else char_of (48 + nat \<lfloor>f * 10\<rfloor>) # frac_digits n (f * 10 - of_int \<lfloor>f * 10\<rfloor>))"

text \<open>
  \<open>String(n)\<close> for a finite number in positional notation: the sign, the integer part
  and, when there is one, the fraction (17 digits at most, the precision of a double).
  The exponent notation that JavaScript uses from \<open>1e21\<close> on and below \<open>1e-6\<close> is not
  modelled.
\<close>

definition show_rat :: "rat \<Rightarrow> string" where
  "show_rat r =
     (if r < 0 then ''-'' else '''') @ show_nat (nat \<lfloor>\<bar>r\<bar>\<rfloor>) @
     (if \<bar>r\<bar> = of_int \<lfloor>\<bar>r\<bar>\<rfloor> then ''''
      else ''.'' @ frac_digits 17 (\<bar>r\<bar> - of_int \<lfloor>\<bar>r\<bar>\<rfloor>))"

text \<open>The string a template literal \<open>`${v}`\<close> inserts.\<close>

fun js_to_string :: "jsval \<Rightarrow> string" where
  "js_to_string JUndefined = ''undefined''"
| "js_to_string JNull = ''null''"
| "js_to_string (JBool b) = (if b then ''true'' else ''false'')"
| "js_to_string (JNum NaN) = ''NaN''"
| "js_to_string (JNum (Fin r)) = show_rat r"
| "js_to_string (JStr s) = s"
| "js_to_string (JObj kvs) = ''[object Object]''"

section \<open>Breakpoints (packages/system/src/media.ts)\<close>

text \<open>
  \<open>interface Breakpoints { [key: string]: number }\<close>: a table from breakpoint name to
  width. A key given as a number is a property name all the same, so keys are strings.
\<close>

type_synonym Breakpoints = "(string \<times> rat) list"

definition DEFAULT_BREAKPOINTS :: Breakpoints where
  "DEFAULT_BREAKPOINTS =
     [(''xs'', 0), (''sm'', 576), (''md'', 768), (''lg'', 992), (''xl'', 1200)]"

text \<open>
  Modelled from the spec: \<open>px\<close> is imported from \<open>./unit\<close>, which is not among the
  sources. The spec gives the media query string as \<open>(min-width: {width}px)\<close> and lets
  unrecognised values pass through unchanged: a finite number is rendered followed by
  \<open>px\<close>, any other value is returned as it is.
\<close>

fun px :: "jsval \<Rightarrow> jsval" where
  "px (JNum (Fin r)) = JStr (show_rat r @ ''px'')"
| "px v = v"

text \<open>
  \<open>mediaMinWidth = (value) => value ? `@media (min-width: ${value})` : null\<close>, and its
  siblings.
\<close>

definition mediaMinWidth :: "jsval \<Rightarrow> jsval" where
  "mediaMinWidth value =
     (if truthy value then JStr (''@media (min-width: '' @ js_to_string value @ '')'')
      else JNull)"

definition mediaMaxWidth :: "jsval \<Rightarrow> jsval" where
  "mediaMaxWidth value =
     (if truthy value then JStr (''@media (max-width: '' @ js_to_string value @ '')'')
      else JNull)"

definition mediaBetweenWidth :: "jsval \<Rightarrow> jsval \<Rightarrow> jsval" where
  "mediaBetweenWidth mn mx =
     (if truthy mn \<and> truthy mx
      then JStr (''@media (min-width: '' @ js_to_string mn @ '') and (max-width: '' @
                 js_to_string mx @ '')'')
      else JNull)"

text \<open>
  \<open>getBreakpointMin(breakpoints, key)\<close>: \<open>value === 0 ? null : px(value)\<close>. The unit
  helper is a parameter. A key that the table lacks reads as \<open>undefined\<close>, which is not
  \<open>=== 0\<close> and goes to the unit helper.
\<close>

definition getBreakpointMin :: "(jsval \<Rightarrow> jsval) \<Rightarrow> Breakpoints \<Rightarrow> string \<Rightarrow> jsval" where
  "getBreakpointMin unit breakpoints key =
     (case map_of breakpoints key of
        None \<Rightarrow> unit JUndefined
      | Some value \<Rightarrow> if value = 0 then JNull else unit (JNum (Fin value)))"

text \<open>
  \<open>getBreakpointMax(breakpoints, key)\<close>: \<open>breakPoint === 0 ? null : px(breakPoint - 0.02)\<close>.
  For a key that the table lacks, \<open>undefined - 0.02\<close> is \<open>NaN\<close>.
\<close>

definition getBreakpointMax :: "(jsval \<Rightarrow> jsval) \<Rightarrow> Breakpoints \<Rightarrow> string \<Rightarrow> jsval" where
  "getBreakpointMax unit breakpoints key =
     (case map_of breakpoints key of
        None \<Rightarrow> unit (JNum NaN)
      | Some breakPoint \<Rightarrow>
          if breakPoint = 0 then JNull else unit (JNum (Fin (breakPoint - 2 / 100))))"

text \<open>
  Modelled from the spec: the Responsive Expander is not among the sources. For a
  sequence the spec pairs element \<open>i\<close> with the breakpoint at sorted-ascending index
  \<open>i\<close>, the selector being the min-width media query of that breakpoint; entries beyond
  the table's length are dropped.
\<close>

definition expandSequence ::
  "(jsval \<Rightarrow> jsval) \<Rightarrow> Breakpoints \<Rightarrow> 'a list \<Rightarrow> (jsval \<times> 'a) list" where
  "expandSequence unit breakpoints vals =
     zip (map (\<lambda>key. mediaMinWidth (getBreakpointMin unit breakpoints key))
              (map fst (sort_key snd breakpoints)))
         vals"

section \<open>Unit Resolver\<close>

text \<open>
  Modelled from the spec: \<open>toLength\<close> is not among the sources (the tests of the
  styled-components binding show its effect: \<open>m={2}\<close> gives \<open>margin: 8px\<close>, \<open>p={1}\<close> gives
  \<open>padding: 4px\<close>). The spec: a numeric value is multiplied by the fixed scale, 1 unit =
  4px, and \<open>px\<close> is appended; zero gives \<open>"0"\<close> with no unit; a string and any
  unrecognised value are returned unchanged.
\<close>

definition SCALE :: rat where
  "SCALE = 4"

fun toLength :: "jsval \<Rightarrow> jsval" where
  "toLength (JNum (Fin n)) =
     (if n = 0 then JStr ''0'' else JStr (show_rat (SCALE * n) @ ''px''))"
| "toLength v = v"

section \<open>Color modes (packages/core/src/colorModes.tsx)\<close>

subsection \<open>Errors, objects and property reads\<close>

text \<open>
  What the module can throw: the \<open>TypeError\<close> of a property read on \<open>undefined\<close> or
  \<open>null\<close>, and \<open>new Error(message)\<close>; and what the browser can throw into the init
  script: a \<open>DOMException\<close>, given by its name.
\<close>

datatype error = TypeError | Error string | DOMException string

text \<open>
  The own enumerable properties of a value, which is what a spread \<open>{...v}\<close> copies and
  what \<open>Object.keys(v)\<close> lists: those of an object, the indexed characters of a string,
  and none for the other primitives.
\<close>

fun own_props :: "jsval \<Rightarrow> (string \<times> jsval) list" where
  "own_props (JObj kvs) = kvs"
| "own_props (JStr s) = zip (map show_nat [0..<length s]) (map (\<lambda>c. JStr [c]) s)"
| "own_props v = []"

definition Object_keys :: "jsval \<Rightarrow> string list" where
  "Object_keys v = map fst (own_props v)"

text \<open>
  The property read \<open>v[key]\<close>: it throws on \<open>undefined\<close> and \<open>null\<close>, and gives
  \<open>undefined\<close> for a property the value lacks. Inherited members (those of
  \<open>Object.prototype\<close> and \<open>String.prototype\<close>) are not modelled.
\<close>

fun get_prop :: "jsval \<Rightarrow> string \<Rightarrow> error + jsval" where
  "get_prop JUndefined key = Inl TypeError"
| "get_prop JNull key = Inl TypeError"
| "get_prop (JStr s) key =
     Inr (case map_of (own_props (JStr s)) key of
            Some v \<Rightarrow> v
          | None \<Rightarrow> if key = ''length'' then JNum (Fin (of_nat (length s))) else JUndefined)"
| "get_prop v key = Inr (case map_of (own_props v) key of Some v' \<Rightarrow> v' | None \<Rightarrow> JUndefined)"

text \<open>
  Writing one property: an existing key keeps its place and takes the new value, a new
  key is added last. A spread \<open>{...a, ...b}\<close> writes the properties of \<open>b\<close> over those
  of \<open>a\<close>, first to last.
\<close>

fun set_prop :: "'k \<Rightarrow> 'v \<Rightarrow> ('k \<times> 'v) list \<Rightarrow> ('k \<times> 'v) list" where
  "set_prop k v [] = [(k, v)]"
| "set_prop k v (p # ps) = (if fst p = k then (k, v) # ps else p # set_prop k v ps)"

definition spread :: "(string \<times> jsval) list \<Rightarrow> jsval \<Rightarrow> (string \<times> jsval) list" where
  "spread a b = fold (\<lambda>(k, v) acc. set_prop k v acc) (own_props b) a"

text \<open>The rest of a destructuring \<open>const { modes, ...colors } = c\<close>.\<close>

definition without_key :: "string \<Rightarrow> (string \<times> jsval) list \<Rightarrow> (string \<times> jsval) list" where
  "without_key k c = filter (\<lambda>p. fst p \<noteq> k) c"

text \<open>A loop \<open>xs.forEach(...)\<close> whose body may throw: the first throw ends it.\<close>

primrec forEach :: "('a \<Rightarrow> 's \<Rightarrow> error + 's) \<Rightarrow> 'a list \<Rightarrow> 's \<Rightarrow> error + 's" where
  "forEach body [] s = Inr s"
| "forEach body (x # xs) s =
     (case body x s of Inl e \<Rightarrow> Inl e | Inr s' \<Rightarrow> forEach body xs s')"

subsection \<open>Constants and the theme\<close>

definition STORAGE_KEY :: string where
  "STORAGE_KEY = ''xstyled-color-mode''"

definition COLOR_MODE_CLASS_PREFIX :: string where
  "COLOR_MODE_CLASS_PREFIX = ''xstyled-color-mode-''"

definition getColorModeClassName :: "string \<Rightarrow> string" where
  "getColorModeClassName mode = COLOR_MODE_CLASS_PREFIX @ mode"

definition XSTYLED_COLORS_PREFIX :: string where
  "XSTYLED_COLORS_PREFIX = ''xstyled-colors''"

definition SYSTEM_MODES :: "string list" where
  "SYSTEM_MODES = [''light'', ''dark'']"

text \<open>
  \<open>interface Theme\<close>: every field is optional (\<open>None\<close> is \<open>undefined\<close>). \<open>colors\<close> is an
  object; its property \<open>modes\<close>, when there is one, maps a mode name to a value of
  type \<open>any\<close>.
\<close>

record theme =
  useCustomProperties :: "bool option"
  useColorSchemeMediaQuery :: "bool option"
  initialColorModeName :: "string option"
  defaultColorModeName :: "string option"
  colors :: "(string \<times> jsval) list option"

text \<open>\<open>theme.colors.modes\<close>: the read throws when the theme has no \<open>colors\<close>.\<close>

definition theme_colors_modes :: "theme \<Rightarrow> error + jsval" where
  "theme_colors_modes th =
     (case colors th of None \<Rightarrow> Inl TypeError | Some c \<Rightarrow> get_prop (JObj c) ''modes'')"

text \<open>
  \<open>hasColorModes(theme) = Boolean(theme && theme.colors && theme.colors.modes)\<close>. The
  theme is present here; an absent theme is the case \<open>None\<close> of the provider below.
\<close>

definition hasColorModes :: "theme \<Rightarrow> bool" where
  "hasColorModes th =
     (case colors th of
        None \<Rightarrow> False
      | Some c \<Rightarrow> (case map_of c ''modes'' of None \<Rightarrow> False | Some m \<Rightarrow> truthy m))"

definition hasCustomPropertiesEnabled :: "theme \<Rightarrow> bool" where
  "hasCustomPropertiesEnabled th =
     (case useCustomProperties th of None \<Rightarrow> True | Some b \<Rightarrow> b)"

definition hasMediaQueryEnabled :: "theme \<Rightarrow> bool" where
  "hasMediaQueryEnabled th =
     (case useColorSchemeMediaQuery th of None \<Rightarrow> True | Some b \<Rightarrow> b)"

text \<open>\<open>theme.initialColorModeName || 'default'\<close>: the empty string is falsy.\<close>

definition getInitialColorModeName :: "theme \<Rightarrow> string" where
  "getInitialColorModeName th =
     (case initialColorModeName th of
        None \<Rightarrow> ''default''
      | Some n \<Rightarrow> if n \<noteq> [] then n else ''default'')"

definition getDefaultColorModeName :: "theme \<Rightarrow> string" where
  "getDefaultColorModeName th =
     (case defaultColorModeName th of
        None \<Rightarrow> getInitialColorModeName th
      | Some n \<Rightarrow> if n \<noteq> [] then n else getInitialColorModeName th)"

definition getMediaQuery :: "string \<Rightarrow> string" where
  "getMediaQuery query = ''@media '' @ query"

definition getColorModeQuery :: "string \<Rightarrow> string" where
  "getColorModeQuery mode = ''(prefers-color-scheme: '' @ mode @ '')''"

subsection \<open>createColorStyles\<close>

text \<open>
  \<open>getModeTheme(theme, mode)\<close>:
  \<open>{ ...theme, colors: { ...theme.colors, ...theme.colors.modes[mode] } }\<close>.
\<close>

definition getModeTheme :: "theme \<Rightarrow> string \<Rightarrow> error + theme" where
  "getModeTheme th mode =
     (case colors th of
        None \<Rightarrow> Inl TypeError
      | Some c \<Rightarrow>
          (case get_prop (JObj c) ''modes'' of
             Inl e \<Rightarrow> Inl e
           | Inr modes \<Rightarrow>
               (case get_prop modes mode of
                  Inl e \<Rightarrow> Inl e
                | Inr overrides \<Rightarrow> Inr (th\<lparr>colors := Some (spread c overrides)\<rparr>))))"

text \<open>
  \<open>toCustomPropertiesDeclarations\<close> is imported from \<open>./customProperties\<close>, which is
  not among the sources: it is the parameter \<open>decls\<close>, taking the colors, the prefix
  and the theme to the text of the declarations.

  The local function \<open>getModePropertiesDeclarations(mode)\<close> of \<open>createColorStyles\<close>:
  the colors of the mode's theme are split again into \<open>modes\<close> and the rest, and
  \<open>modes[mode]\<close> is spread over the rest.
\<close>

type_synonym declarations = "(string \<times> jsval) list \<Rightarrow> string \<Rightarrow> theme \<Rightarrow> string"

definition getModePropertiesDeclarations :: "declarations \<Rightarrow> theme \<Rightarrow> string \<Rightarrow> error + string" where
  "getModePropertiesDeclarations decls th mode =
     (case getModeTheme th mode of
        Inl e \<Rightarrow> Inl e
      | Inr modeTheme \<Rightarrow>
          (case colors modeTheme of
             None \<Rightarrow> Inl TypeError
           | Some mc \<Rightarrow>
               (case get_prop (JObj mc) ''modes'' of
                  Inl e \<Rightarrow> Inl e
                | Inr modes \<Rightarrow>
                    (case get_prop modes mode of
                       Inl e \<Rightarrow> Inl e
                     | Inr overrides \<Rightarrow>
                         Inr (decls (spread (without_key ''modes'' mc) overrides)
                                    XSTYLED_COLORS_PREFIX modeTheme)))))"

text \<open>
  The body of the first loop, over \<open>SYSTEM_MODES\<close>:
  \<open>if (modes[mode]) styles += `${mediaQuery}{${getModePropertiesDeclarations(mode)}}`\<close>.
\<close>

definition mediaQueryStep :: "declarations \<Rightarrow> theme \<Rightarrow> jsval \<Rightarrow> string \<Rightarrow> string \<Rightarrow> error + string" where
  "mediaQueryStep decls th modes mode styles =
     (case get_prop modes mode of
        Inl e \<Rightarrow> Inl e
      | Inr entry \<Rightarrow>
          if truthy entry
          then (case getModePropertiesDeclarations decls th mode of
                  Inl e \<Rightarrow> Inl e
                | Inr d \<Rightarrow>
                    Inr (styles @ getMediaQuery (getColorModeQuery mode) @ ''{'' @ d @ ''}''))
          else Inr styles)"

text \<open>
  The body of the second loop, over \<open>[initialModeName, ...Object.keys(modes)]\<close>:
  \<open>styles += `&.${getColorModeClassName(mode)}{${getModePropertiesDeclarations(mode)}}`\<close>.
\<close>

definition classStep :: "declarations \<Rightarrow> theme \<Rightarrow> string \<Rightarrow> string \<Rightarrow> error + string" where
  "classStep decls th mode styles =
     (case getModePropertiesDeclarations decls th mode of
        Inl e \<Rightarrow> Inl e
      | Inr d \<Rightarrow> Inr (styles @ ''&.'' @ getColorModeClassName mode @ ''{'' @ d @ ''}''))"

text \<open>
  \<open>createColorStyles(theme, { targetSelector = 'body' } = {})\<close>. The result is \<open>null\<close>
  (\<open>Inr None\<close>), the text of the styles, or a throw.
\<close>

definition createColorStyles :: "declarations \<Rightarrow> theme \<Rightarrow> string option \<Rightarrow> error + string option" where
  "createColorStyles decls th targetSelector =
     (if \<not> hasColorModes th then Inr None
      else
        (case colors th of
           None \<Rightarrow> Inl TypeError
         | Some c \<Rightarrow>
             (case get_prop (JObj c) ''modes'' of
                Inl e \<Rightarrow> Inl e
              | Inr modes \<Rightarrow>
                  (case (if useColorSchemeMediaQuery th \<noteq> Some False
                         then forEach (mediaQueryStep decls th modes) SYSTEM_MODES
                                (decls (without_key ''modes'' c) XSTYLED_COLORS_PREFIX th)
                         else Inr (decls (without_key ''modes'' c) XSTYLED_COLORS_PREFIX th)) of
                     Inl e \<Rightarrow> Inl e
                   | Inr styles1 \<Rightarrow>
                       (case forEach (classStep decls th)
                               (getInitialColorModeName th # Object_keys modes) styles1 of
                          Inl e \<Rightarrow> Inl e
                        | Inr styles2 \<Rightarrow>
                            Inr (Some ((case targetSelector of None \<Rightarrow> ''body'' | Some t \<Rightarrow> t) @
                                       ''{'' @ styles2 @ ''}'')))))))"

text \<open>
  The claim's words for the result, to compare with the code: after the base
  declarations, one media block for each of \<open>light\<close> and \<open>dark\<close> that is declared in
  \<open>colors.modes\<close> (a key of it), then one class block for the initial mode name and for
  every declared mode. \<open>block\<close> gives the declarations of a mode.
\<close>

definition mediaBlock :: "(string \<Rightarrow> string) \<Rightarrow> string \<Rightarrow> string" where
  "mediaBlock block mode = ''@media (prefers-color-scheme: '' @ mode @ ''){'' @ block mode @ ''}''"

definition classBlock :: "(string \<Rightarrow> string) \<Rightarrow> string \<Rightarrow> string" where
  "classBlock block mode = ''&.xstyled-color-mode-'' @ mode @ ''{'' @ block mode @ ''}''"

definition claimedColorStyles ::
  "string \<Rightarrow> string \<Rightarrow> (string \<Rightarrow> string) \<Rightarrow> bool \<Rightarrow> string \<Rightarrow> jsval \<Rightarrow> string" where
  "claimedColorStyles target base block mediaQueries initialMode modes =
     target @ ''{'' @ base @
     (if mediaQueries
      then concat (map (mediaBlock block)
                     (filter (\<lambda>m. m \<in> set (Object_keys modes)) [''light'', ''dark'']))
      else '''') @
     concat (map (classBlock block) (initialMode # Object_keys modes)) @ ''}''"

text \<open>
  The same with the test of the code for a media block: the entry \<open>modes[m]\<close> is truthy.
\<close>

definition truthyEntry :: "jsval \<Rightarrow> string \<Rightarrow> bool" where
  "truthyEntry modes m = (case get_prop modes m of Inl e \<Rightarrow> False | Inr v \<Rightarrow> truthy v)"

definition amendedColorStyles ::
  "string \<Rightarrow> string \<Rightarrow> (string \<Rightarrow> string) \<Rightarrow> bool \<Rightarrow> string \<Rightarrow> jsval \<Rightarrow> string" where
  "amendedColorStyles target base block mediaQueries initialMode modes =
     target @ ''{'' @ base @
     (if mediaQueries
      then concat (map (mediaBlock block) (filter (truthyEntry modes) [''light'', ''dark'']))
      else '''') @
     concat (map (classBlock block) (initialMode # Object_keys modes)) @ ''}''"

text \<open>
  The entry \<open>modes[m]\<close> of a mode, and the declarations that
  \<open>getModePropertiesDeclarations(m)\<close> computes when the entry does not itself carry a
  property \<open>modes\<close>: those of the theme's colors with the entry spread over them.
\<close>

definition modeEntry :: "jsval \<Rightarrow> string \<Rightarrow> jsval" where
  "modeEntry modes m = (case get_prop modes m of Inl e \<Rightarrow> JUndefined | Inr v \<Rightarrow> v)"

definition plainOverrides :: "jsval \<Rightarrow> string \<Rightarrow> bool" where
  "plainOverrides modes m = (''modes'' \<notin> set (Object_keys (modeEntry modes m)))"

definition modeDeclarations ::
  "declarations \<Rightarrow> theme \<Rightarrow> (string \<times> jsval) list \<Rightarrow> jsval \<Rightarrow> string \<Rightarrow> string" where
  "modeDeclarations decls th c modes m =
     decls (spread (without_key ''modes'' (spread c (modeEntry modes m))) (modeEntry modes m))
           XSTYLED_COLORS_PREFIX
           (th\<lparr>colors := Some (spread c (modeEntry modes m))\<rparr>)"


subsection \<open>useSystemMode\<close>

text \<open>
  The browser as the hooks see it: whether \<open>localStorage\<close> passed the test of
  \<open>isLocalStorageAvailable\<close>, whether \<open>window.matchMedia\<close> exists, whether a media query
  matches at mount, and whether a media query list has \<open>addEventListener\<close> and
  \<open>removeEventListener\<close>.
\<close>

record env =
  isLocalStorageAvailable :: bool
  matchMediaAvailable :: bool
  mqlMatches :: "string \<Rightarrow> bool"
  mqlHasListeners :: bool

text \<open>
  \<open>getSystemModeMql(mode)\<close>: \<open>null\<close> without \<open>window.matchMedia\<close>, else the media query
  list of \<open>(prefers-color-scheme: mode)\<close>, which is represented by its query.
\<close>

definition getSystemModeMql :: "env \<Rightarrow> string \<Rightarrow> string option" where
  "getSystemModeMql e mode =
     (if \<not> matchMediaAvailable e then None else Some (getColorModeQuery mode))"

primrec mapE :: "('a \<Rightarrow> error + 'b) \<Rightarrow> 'a list \<Rightarrow> error + 'b list" where
  "mapE f [] = Inr []"
| "mapE f (x # xs) =
     (case f x of
        Inl e \<Rightarrow> Inl e
      | Inr y \<Rightarrow> (case mapE f xs of Inl e \<Rightarrow> Inl e | Inr ys \<Rightarrow> Inr (y # ys)))"

text \<open>
  The callback of \<open>SYSTEM_MODES.map\<close> in the memo of \<open>useSystemMode\<close>:
  \<open>if (!theme.colors.modes[mode]) return null\<close>, then
  \<open>mql ? { mode, mql } : null\<close>. The read \<open>theme.colors.modes[mode]\<close> is not guarded.
\<close>

definition systemModeConfig :: "theme \<Rightarrow> env \<Rightarrow> string \<Rightarrow> error + (string \<times> string) option" where
  "systemModeConfig th e mode =
     (case theme_colors_modes th of
        Inl err \<Rightarrow> Inl err
      | Inr modes \<Rightarrow>
          (case get_prop modes mode of
             Inl err \<Rightarrow> Inl err
           | Inr entry \<Rightarrow>
               if \<not> truthy entry then Inr None
               else Inr (case getSystemModeMql e mode of
                           None \<Rightarrow> None
                         | Some mql \<Rightarrow> Some (mode, mql))))"

text \<open>The memo \<open>configs\<close>: \<open>[]\<close> when the media query is disabled, else the map, filtered.\<close>

definition systemModeConfigs :: "theme \<Rightarrow> env \<Rightarrow> error + (string \<times> string) list" where
  "systemModeConfigs th e =
     (if \<not> hasMediaQueryEnabled th then Inr []
      else (case mapE (systemModeConfig th e) SYSTEM_MODES of
              Inl err \<Rightarrow> Inl err
            | Inr cs \<Rightarrow> Inr (List.map_filter (\<lambda>c. c) cs)))"

text \<open>The initial state: the mode of the first config whose media query matches.\<close>

definition initialSystemMode :: "env \<Rightarrow> (string \<times> string) list \<Rightarrow> string option" where
  "initialSystemMode e configs =
     (case find (\<lambda>config. mqlMatches e (snd config)) configs of
        None \<Rightarrow> None
      | Some config \<Rightarrow> Some (fst config))"

text \<open>
  The \<open>change\<close> handler of the config of \<open>mode\<close>, as a function of the previous state:
  \<open>if (matches) setSystemMode(mode)
    else setSystemMode((previousMode) => previousMode === mode ? null : mode)\<close>.
\<close>

definition systemModeHandler :: "string \<Rightarrow> bool \<Rightarrow> string option \<Rightarrow> string option" where
  "systemModeHandler mode matches previousMode =
     (if matches then Some mode
      else if previousMode = Some mode then None else Some mode)"


subsection \<open>useColorModeState\<close>

text \<open>
  What the hook keeps between renders: the state \<open>mode\<close>, the state of
  \<open>useSystemMode\<close>, the ref \<open>manualSetRef.current\<close>, and the item of \<open>localStorage\<close>
  under \<open>STORAGE_KEY\<close>. \<open>type Mode = string | null\<close>.
\<close>

record hooks =
  mode :: "string option"
  systemMode :: "string option"
  manualSetRef :: bool
  stored :: "string option"

text \<open>The object \<open>storage\<close>: the real item, or the no-op stand-in.\<close>

definition storage_get :: "env \<Rightarrow> hooks \<Rightarrow> string option" where
  "storage_get e h = (if isLocalStorageAvailable e then stored h else None)"

definition storage_set :: "env \<Rightarrow> string \<Rightarrow> hooks \<Rightarrow> hooks" where
  "storage_set e v h = (if isLocalStorageAvailable e then h\<lparr>stored := Some v\<rparr> else h)"

definition storage_clear :: "env \<Rightarrow> hooks \<Rightarrow> hooks" where
  "storage_clear e h = (if isLocalStorageAvailable e then h\<lparr>stored := None\<rparr> else h)"

text \<open>Truthiness of a \<open>Mode\<close>, and \<open>a || b\<close> on two of them.\<close>

definition mode_truthy :: "string option \<Rightarrow> bool" where
  "mode_truthy m = (case m of None \<Rightarrow> False | Some s \<Rightarrow> s \<noteq> [])"

definition mode_or :: "string option \<Rightarrow> string option \<Rightarrow> string option" where
  "mode_or a b = (if mode_truthy a then a else b)"

text \<open>
  Each effect takes the render it closes over (\<open>r\<close>: its \<open>mode\<close> and \<open>systemMode\<close>) and
  the live state (\<open>h\<close>: the storage, the ref, and the pending \<open>mode\<close>, which \<open>setMode\<close>
  writes).

  "Set initial color mode in lazy", dependencies \<open>[]\<close>.
\<close>

definition initialEffect :: "theme \<Rightarrow> env \<Rightarrow> hooks \<Rightarrow> hooks \<Rightarrow> hooks" where
  "initialEffect th e r h =
     (if \<not> hasColorModes th then h
      else
        (let storedMode = storage_get e h;
             initialMode =
               mode_or storedMode (mode_or (systemMode r) (Some (getDefaultColorModeName th)))
         in if mode r \<noteq> initialMode then h\<lparr>mode := initialMode\<rparr> else h))"

text \<open>"Store mode preference", dependencies \<open>[mode]\<close>.\<close>

definition storeEffect :: "env \<Rightarrow> hooks \<Rightarrow> hooks \<Rightarrow> hooks" where
  "storeEffect e r h =
     (if manualSetRef h
      then (case mode r of
              None \<Rightarrow> storage_clear e h
            | Some m \<Rightarrow> if m \<noteq> [] then storage_set e m h else storage_clear e h)
      else h)"

text \<open>"Sync system mode", dependencies \<open>[mode, systemMode, defaultColorMode]\<close>.\<close>

definition syncEffect :: "theme \<Rightarrow> env \<Rightarrow> hooks \<Rightarrow> hooks \<Rightarrow> hooks" where
  "syncEffect th e r h =
     (let storedMode = storage_get e h in
      if mode_truthy storedMode then h
      else
        (let targetMode = mode_or (systemMode r) (Some (getDefaultColorModeName th)) in
         if targetMode = mode r then h else h\<lparr>mode := targetMode\<rparr>))"

text \<open>
  The effects of one commit, in the order of the source. After the mount all run;
  after a later render an effect runs when one of its dependencies differs from the
  previous render \<open>p\<close> (the theme is the same in every render, so
  \<open>defaultColorMode\<close> never differs). The fourth effect, "Add and remove class names",
  writes the class list of the target only and is left out.
\<close>

definition commit :: "theme \<Rightarrow> env \<Rightarrow> bool \<Rightarrow> hooks \<Rightarrow> hooks \<Rightarrow> hooks" where
  "commit th e mount p r =
     (let h1 = (if mount then initialEffect th e r r else r);
          h2 = (if mount \<or> mode r \<noteq> mode p then storeEffect e r h1 else h1)
      in if mount \<or> mode r \<noteq> mode p \<or> systemMode r \<noteq> systemMode p
         then syncEffect th e r h2 else h2)"

text \<open>
  React renders again while a state differs from the one rendered last. The first
  argument bounds the number of renders: \<open>None\<close> is a loop that has not settled.
\<close>

primrec settle :: "nat \<Rightarrow> theme \<Rightarrow> env \<Rightarrow> hooks \<Rightarrow> hooks \<Rightarrow> hooks option" where
  "settle 0 th e p r =
     (if mode r = mode p \<and> systemMode r = systemMode p then Some r else None)"
| "settle (Suc n) th e p r =
     (if mode r = mode p \<and> systemMode r = systemMode p then Some r
      else settle n th e r (commit th e False p r))"

text \<open>
  The mount of \<open>useColorModeState(theme)\<close>, with the item found in storage: the memo of
  \<open>useSystemMode\<close> may throw; the first render has \<open>mode\<close> at the default mode (\<open>null\<close>
  without color modes).
\<close>

definition firstRender :: "theme \<Rightarrow> env \<Rightarrow> (string \<times> string) list \<Rightarrow> string option \<Rightarrow> hooks" where
  "firstRender th e configs item =
     \<lparr>mode = (if \<not> hasColorModes th then None else Some (getDefaultColorModeName th)),
      systemMode = initialSystemMode e configs,
      manualSetRef = False,
      stored = item\<rparr>"

definition useColorModeState ::
  "nat \<Rightarrow> theme \<Rightarrow> env \<Rightarrow> string option \<Rightarrow> (error + hooks) option" where
  "useColorModeState n th e item =
     (case systemModeConfigs th e of
        Inl err \<Rightarrow> Some (Inl err)
      | Inr configs \<Rightarrow>
          map_option Inr
            (settle n th e (firstRender th e configs item)
               (commit th e True (firstRender th e configs item)
                  (firstRender th e configs item))))"




subsection \<open>useColorMode and ColorModeProvider\<close>

text \<open>\<open>useColorMode()\<close>, given the value of \<open>ColorModeContext\<close> (\<open>None\<close> is \<open>null\<close>).\<close>

definition useColorMode :: "'s option \<Rightarrow> error + 's" where
  "useColorMode colorModeState =
     (case colorModeState of
        None \<Rightarrow> Inl (Error ''[useColorMode] requires the ColorModeProvider component'')
      | Some s \<Rightarrow> Inr s)"

text \<open>
  The first render of \<open>ColorModeProvider\<close>, given the value of \<open>ThemeContext\<close>: the
  throw without a theme, then \<open>useColorModeState(theme, { target })\<close>. The result
  stands for the color state that the provider hands to its children.
\<close>

definition ColorModeProvider ::
  "nat \<Rightarrow> theme option \<Rightarrow> env \<Rightarrow> string option \<Rightarrow> (error + hooks) option" where
  "ColorModeProvider n themeContext e item =
     (case themeContext of
        None \<Rightarrow> Some (Inl (Error ''[ColorModeProvider] requires ThemeProvider upper in the tree''))
      | Some th \<Rightarrow> useColorModeState n th e item)"

subsection \<open>getInitScript\<close>

text \<open>\<open>getInitScript({ target = 'document.body' } = {})\<close>: the text of the script.\<close>

definition getInitScript :: "string option \<Rightarrow> string" where
  "getInitScript target =
     ''(function() { try {\<newline>    var mode = localStorage.getItem('' @ [CHR 0x27] @
     STORAGE_KEY @ [CHR 0x27] @ '');\<newline>    if (mode) '' @
     (case target of None \<Rightarrow> ''document.body'' | Some t \<Rightarrow> t) @
     ''.classList.add('' @ [CHR 0x27] @ COLOR_MODE_CLASS_PREFIX @ [CHR 0x27] @
     '' + mode);\<newline>  } catch (e) {} })();''"

text \<open>
  The program that this text is, run on a page: \<open>localStorage.getItem\<close> may throw
  (storage disabled), and so may the read of the class list of the target (\<open>None\<close>:
  the target does not exist yet) and the call of \<open>classList.add\<close>.

  \<open>DOMTokenList.add(token)\<close>: it throws a \<open>SyntaxError\<close> for the empty token and an
  \<open>InvalidCharacterError\<close> for a token that contains ASCII whitespace (tab, line feed,
  form feed, carriage return, space); else it adds the token unless the list has it.
\<close>

record page =
  getItem :: "string \<Rightarrow> error + string option"
  classList :: "string list option"

definition isAsciiWhitespace :: "char \<Rightarrow> bool" where
  "isAsciiWhitespace c =
     (c = CHR 0x09 \<or> c = CHR 0x0A \<or> c = CHR 0x0C \<or> c = CHR 0x0D \<or> c = CHR 0x20)"

definition classList_add :: "string \<Rightarrow> string list \<Rightarrow> error + string list" where
  "classList_add token cl =
     (if token = [] then Inl (DOMException ''SyntaxError'')
      else if list_ex isAsciiWhitespace token then Inl (DOMException ''InvalidCharacterError'')
      else Inr (if token \<in> set cl then cl else cl @ [token]))"

text \<open>
  \<open>initScriptBody\<close> is the block of the \<open>try\<close>:
  \<open>var mode = localStorage.getItem(KEY); if (mode) target.classList.add(PREFIX + mode);\<close>
  and \<open>initScript\<close> the whole, whose \<open>catch\<close> is empty.
\<close>

definition initScriptBody :: "page \<Rightarrow> error + page" where
  "initScriptBody pg =
     (case getItem pg STORAGE_KEY of
        Inl err \<Rightarrow> Inl err
      | Inr None \<Rightarrow> Inr pg
      | Inr (Some m) \<Rightarrow>
          if m \<noteq> []
          then (case classList pg of
                  None \<Rightarrow> Inl TypeError
                | Some cl \<Rightarrow>
                    (case classList_add (COLOR_MODE_CLASS_PREFIX @ m) cl of
                       Inl err \<Rightarrow> Inl err
                     | Inr cl' \<Rightarrow> Inr (pg\<lparr>classList := Some cl'\<rparr>)))
          else Inr pg)"

definition initScript :: "page \<Rightarrow> page" where
  "initScript pg = (case initScriptBody pg of Inl err \<Rightarrow> pg | Inr pg' \<Rightarrow> pg')"

section \<open>Theme Accessor and negative tokens\<close>

text \<open>
  Modelled from the spec: the Theme Accessor and the resolution of a space value are
  not among the sources (a test of the styled-components binding shows their effect:
  with the theme \<open>{ space: { md: 10 } }\<close>, \<open>margin: -md\<close> gives \<open>margin: -10px\<close>).

  The spec: \<open>get(theme, path, fallback)\<close> splits the path on \<open>.\<close> and walks the theme
  object; if a segment is absent or the final value is \<open>undefined\<close>, it returns the
  fallback unchanged.
\<close>

fun split_path :: "string \<Rightarrow> string list" where
  "split_path [] = [[]]"
| "split_path (c # cs) =
     (if c = CHR ''.'' then [] # split_path cs
      else (case split_path cs of [] \<Rightarrow> [[c]] | seg # segs \<Rightarrow> (c # seg) # segs))"

fun walk :: "jsval \<Rightarrow> string list \<Rightarrow> jsval" where
  "walk v [] = v"
| "walk (JObj kvs) (k # ks) = (case map_of kvs k of None \<Rightarrow> JUndefined | Some v \<Rightarrow> walk v ks)"
| "walk v (k # ks) = JUndefined"

definition get :: "jsval \<Rightarrow> string \<Rightarrow> jsval \<Rightarrow> jsval" where
  "get theme path fallback =
     (if walk theme (split_path path) = JUndefined then fallback
      else walk theme (split_path path))"

text \<open>
  The spec: a string token prefixed with \<open>-\<close> is looked up at the unprefixed path and
  the result is negated; a negative number whose positive counterpart is a
  positive-valued token is negated after the lookup. \<open>None\<close>: the theme has no such
  token.
\<close>

fun negate :: "jsval \<Rightarrow> jsval" where
  "negate (JNum (Fin r)) = JNum (Fin (- r))"
| "negate (JStr s) = JStr (''-'' @ s)"
| "negate v = v"

fun resolveToken :: "jsval \<Rightarrow> string \<Rightarrow> jsval \<Rightarrow> jsval option" where
  "resolveToken theme category (JStr s) =
     (case s of
        [] \<Rightarrow> None
      | c # rest \<Rightarrow>
          if c = CHR ''-''
          then (if get theme (category @ ''.'' @ rest) JUndefined = JUndefined then None
                else Some (negate (get theme (category @ ''.'' @ rest) JUndefined)))
          else (if get theme (category @ ''.'' @ s) JUndefined = JUndefined then None
                else Some (get theme (category @ ''.'' @ s) JUndefined)))"
| "resolveToken theme category (JNum (Fin n)) =
     (if n < 0
      then (case get theme (category @ ''.'' @ show_rat (- n)) JUndefined of
              JNum (Fin v) \<Rightarrow> if 0 < v then Some (JNum (Fin (- v))) else None
            | _ \<Rightarrow> None)
      else (if get theme (category @ ''.'' @ show_rat n) JUndefined = JUndefined then None
            else Some (get theme (category @ ''.'' @ show_rat n) JUndefined)))"
| "resolveToken theme category v = None"

text \<open>
  The value of a space property (margin, padding): the token of the theme, which is a
  length in pixels as it stands (the spec's scenario: the token 10, negated, gives
  \<open>-10px\<close>); without a token, the Unit Resolver. A declaration is
  \<open>property: value;\<close>.
\<close>

definition getSpace :: "jsval \<Rightarrow> jsval \<Rightarrow> jsval" where
  "getSpace theme raw =
     (case resolveToken theme ''space'' raw of None \<Rightarrow> toLength raw | Some v \<Rightarrow> px v)"

definition cssDeclaration :: "string \<Rightarrow> jsval \<Rightarrow> string" where
  "cssDeclaration property v = property @ '': '' @ js_to_string v @ '';''"

definition margin :: "jsval \<Rightarrow> jsval \<Rightarrow> string" where
  "margin theme raw = cssDeclaration ''margin'' (getSpace theme raw)"

section \<open>Style Definition and Compositor\<close>

text \<open>
  Modelled from the spec: \<open>style\<close> and \<open>compose\<close> are imported from \<open>../style\<close>, which is
  not among the sources (\<open>styles/backgrounds.ts\<close> only calls them).

  The spec: a Style Definition is
  \<open>{ propNames, cssProperty, themeGetter, transform? }\<close>; the getter and the transform
  read the property bag by name. A definition contributes nothing when the bag omits
  all its aliases; else the value of the first alias present is expanded by the
  Responsive Expander (a parameter here) into pairs of a media query selector and a
  value, each value goes through the getter and the transform, and a value that stays
  unresolved (\<open>undefined\<close>) is omitted.
\<close>

type_synonym bag = "(string \<times> jsval) list"

record styleDef =
  propNames :: "string list"
  cssProperty :: "string list"
  themeGetter :: "(string \<Rightarrow> jsval option) \<Rightarrow> jsval \<Rightarrow> jsval"
  transform :: "jsval \<Rightarrow> (string \<Rightarrow> jsval option) \<Rightarrow> jsval"

definition resolveDefinition ::
  "(jsval \<Rightarrow> (jsval \<times> jsval) list) \<Rightarrow> styleDef \<Rightarrow> bag \<Rightarrow> ((jsval \<times> string) \<times> jsval) list" where
  "resolveDefinition expand d props =
     (case find (\<lambda>name. map_of props name \<noteq> None) (propNames d) of
        None \<Rightarrow> []
      | Some name \<Rightarrow>
          concat (map (\<lambda>(selector, raw).
                    if transform d (themeGetter d (map_of props) raw) (map_of props) = JUndefined
                    then []
                    else map (\<lambda>property.
                           ((selector, property),
                            transform d (themeGetter d (map_of props) raw) (map_of props)))
                         (cssProperty d))
                  (expand (the (map_of props name)))))"

text \<open>
  The spec: the Compositor takes an ordered sequence of Style Definitions and returns
  one resolver from the property bag to a ruleset; when two definitions target the
  identical final CSS property (under the same media query), the last one in the
  composition order wins. The ruleset is the list of declarations, each keyed by its
  selector and CSS property: a later declaration for a key replaces the earlier value.
\<close>

definition mergeDeclarations :: "('k \<times> 'v) list \<Rightarrow> ('k \<times> 'v) list \<Rightarrow> ('k \<times> 'v) list" where
  "mergeDeclarations rules ds = fold (\<lambda>(k, v) acc. set_prop k v acc) ds rules"

definition compose ::
  "(jsval \<Rightarrow> (jsval \<times> jsval) list) \<Rightarrow> styleDef list \<Rightarrow> bag \<Rightarrow> ((jsval \<times> string) \<times> jsval) list" where
  "compose expand definitions props =
     fold (\<lambda>d rules. mergeDeclarations rules (resolveDefinition expand d props)) definitions []"

text \<open>What a definition declares for a key: its last declaration for that key.\<close>

definition declares ::
  "(jsval \<Rightarrow> (jsval \<times> jsval) list) \<Rightarrow> styleDef \<Rightarrow> bag \<Rightarrow> (jsval \<times> string) \<Rightarrow> jsval option" where
  "declares expand d props key = map_of (rev (resolveDefinition expand d props)) key"

text \<open>The expansion of a value that is not responsive: one pair, unconditional.\<close>

definition expandScalar :: "jsval \<Rightarrow> (jsval \<times> jsval) list" where
  "expandScalar v = [(JNull, v)]"

section \<open>Example inputs\<close>

text \<open>The breakpoint table \<open>{ xs: 0, sm: 576 }\<close> of the spec's scenario.\<close>

definition twoBreakpoints :: Breakpoints where
  "twoBreakpoints = [(''xs'', 0), (''sm'', 576)]"

text \<open>The theme \<open>{ space: { md: 10 } }\<close> of the spec's scenario.\<close>

definition spaceTheme :: jsval where
  "spaceTheme = JObj [(''space'', JObj [(''md'', JNum (Fin 10))])]"

text \<open>The theme \<open>{}\<close>, and a theme with colors and no modes.\<close>

definition emptyTheme :: theme where
  "emptyTheme =
     \<lparr>useCustomProperties = None, useColorSchemeMediaQuery = None,
      initialColorModeName = None, defaultColorModeName = None, colors = None\<rparr>"

definition plainTheme :: theme where
  "plainTheme = emptyTheme\<lparr>colors := Some [(''primary'', JStr ''red'')]\<rparr>"

text \<open>
  A page whose storage holds \<open>dark\<close> and whose target has one class, a page whose
  storage throws, a page whose storage holds \<open>high contrast\<close>, and a page whose storage
  holds the empty string.
\<close>

definition darkPage :: page where
  "darkPage = \<lparr>getItem = (\<lambda>key. Inr (if key = ''xstyled-color-mode'' then Some ''dark'' else None)),
               classList = Some [''app'']\<rparr>"

definition blockedPage :: page where
  "blockedPage =
     \<lparr>getItem = (\<lambda>key. Inl (DOMException ''SecurityError'')), classList = Some [''app'']\<rparr>"

definition contrastPage :: page where
  "contrastPage =
     \<lparr>getItem = (\<lambda>key. Inr (if key = ''xstyled-color-mode'' then Some ''high contrast''
                             else None)),
      classList = Some [''app'']\<rparr>"

definition emptyStoredPage :: page where
  "emptyStoredPage =
     \<lparr>getItem = (\<lambda>key. Inr (if key = ''xstyled-color-mode'' then Some [] else None)),
      classList = Some [''app'']\<rparr>"

text \<open>
  Two Style Definitions for the CSS property \<open>background-color\<close>: the one of
  \<open>styles/backgrounds.ts\<close> (props \<open>backgroundColor\<close> and \<open>bg\<close>), and another one for a
  prop \<open>fill\<close>. Neither reads the theme nor transforms the value.
\<close>

definition backgroundColor :: styleDef where
  "backgroundColor =
     \<lparr>propNames = [''backgroundColor'', ''bg''], cssProperty = [''background-color''],
      themeGetter = (\<lambda>props v. v), transform = (\<lambda>v props. v)\<rparr>"

definition fillColor :: styleDef where
  "fillColor =
     \<lparr>propNames = [''fill''], cssProperty = [''background-color''],
      themeGetter = (\<lambda>props v. v), transform = (\<lambda>v props. v)\<rparr>"

text \<open>
  A stand-in for \<open>toCustomPropertiesDeclarations\<close> in the examples: one custom
  property per color, named by the prefix and the key.
\<close>

definition sampleDeclarations :: declarations where
  "sampleDeclarations cs prefix th =
     concat (map (\<lambda>(k, v). ''--'' @ prefix @ ''-'' @ k @ '': '' @ js_to_string v @ '';'') cs)"

text \<open>
  The theme \<open>{ colors: { primary: 'red', modes: { dark: null } } }\<close>, where the mode
  \<open>dark\<close> is declared with the value \<open>null\<close>; and the theme
  \<open>{ colors: { primary: 'white', modes: { light: { primary: 'white' }, dark: { primary: 'black' } } } }\<close>.
\<close>

definition nullDarkTheme :: theme where
  "nullDarkTheme =
     emptyTheme\<lparr>colors := Some [(''primary'', JStr ''red''),
                                 (''modes'', JObj [(''dark'', JNull)])]\<rparr>"

definition lightDarkTheme :: theme where
  "lightDarkTheme =
     emptyTheme\<lparr>colors := Some [(''primary'', JStr ''white''),
                                 (''modes'', JObj [(''light'', JObj [(''primary'', JStr ''white'')]),
                                                  (''dark'', JObj [(''primary'', JStr ''black'')])])]\<rparr>"


section \<open>Lemmas on the rendering of numbers\<close>

lemma show_nat_not_Nil: "show_nat n \<noteq> []"
  by (subst show_nat.simps) simp

lemma show_rat_not_Nil: "show_rat r \<noteq> []"
  by (simp add: show_rat_def show_nat_not_Nil)

lemma show_rat_neg: "0 < r \<Longrightarrow> show_rat (- r) = ''-'' @ show_rat r"
  by (simp add: show_rat_def)

lemma show_rat_pos_no_sign: "0 \<le> r \<Longrightarrow> hd (show_rat r) \<noteq> CHR ''-''"
proof -
  have digit: "hd (show_nat n) \<noteq> CHR ''-''" for n
  proof (induction n rule: show_nat.induct)
    case (1 n)
    show ?case
    proof (cases "n < 10")
      case True
      then have "n \<in> {0, 1, 2, 3, 4, 5, 6, 7, 8, 9}" by auto
      then show ?thesis
        by (subst show_nat.simps) (auto simp: char_of_def)
    next
      case False
      with 1 show ?thesis
        by (subst show_nat.simps) (simp add: show_nat_not_Nil)
    qed
  qed
  assume "0 \<le> r"
  then show ?thesis
    by (simp add: show_rat_def show_nat_not_Nil digit)
qed

lemma show_rat_8: "show_rat 8 = ''8''"
  by code_simp

lemma show_rat_4: "show_rat 4 = ''4''"
  by code_simp

lemma show_rat_10: "show_rat 10 = ''10''"
  by code_simp

lemma show_rat_576: "show_rat 576 = ''576''"
  by code_simp

lemma show_rat_575_98: "show_rat (28799 / 50) = ''575.98''"
  by code_simp

lemma show_rat_767_98: "show_rat (38399 / 50) = ''767.98''"
  by code_simp

section \<open>Breakpoints: the min-width selector and the maximum\<close>

lemma expandSequence_twoBreakpoints:
  "expandSequence px twoBreakpoints [JNum (Fin 1), JNum (Fin 2)] =
     [(JNull, JNum (Fin 1)), (JStr ''@media (min-width: 576px)'', JNum (Fin 2))]"
  by (simp add: expandSequence_def twoBreakpoints_def mediaMinWidth_def getBreakpointMin_def
        show_rat_576)

text \<open>
  C3: for a key of the breakpoint table and a unit helper that renders the width \<open>w\<close>
  as \<open>{w}px\<close>, the min-width media selector
  \<open>mediaMinWidth(getBreakpointMin(breakpoints, key))\<close> is \<open>null\<close> exactly when the width
  of the breakpoint is 0, and otherwise it is \<open>@media (min-width: {width}px)\<close>. With the
  breakpoints \<open>{ xs: 0, sm: 576 }\<close> the selectors of \<open>xs\<close> and \<open>sm\<close> are \<open>null\<close> and
  \<open>@media (min-width: 576px)\<close>, so that the responsive array \<open>[1, 2]\<close> gets an
  unconditional first entry and the second entry under \<open>@media (min-width: 576px)\<close>.
  (The type of \<open>getBreakpointMin\<close> takes a key of the table only.)
\<close>

theorem C3_min_width_selector:
  assumes "map_of breakpoints key = Some w"
    and "w \<noteq> 0 \<longrightarrow> unit (JNum (Fin w)) = JStr (show_rat w @ ''px'')"
  shows "(mediaMinWidth (getBreakpointMin unit breakpoints key) = JNull \<longleftrightarrow> w = 0)
       \<and> (w \<noteq> 0 \<longrightarrow> mediaMinWidth (getBreakpointMin unit breakpoints key) =
             JStr (''@media (min-width: '' @ show_rat w @ ''px)''))
       \<and> map (\<lambda>k. mediaMinWidth (getBreakpointMin px twoBreakpoints k)) [''xs'', ''sm''] =
             [JNull, JStr ''@media (min-width: 576px)'']
       \<and> expandSequence px twoBreakpoints [JNum (Fin 1), JNum (Fin 2)] =
             [(JNull, JNum (Fin 1)), (JStr ''@media (min-width: 576px)'', JNum (Fin 2))]"
proof -
  have general: "(mediaMinWidth (getBreakpointMin unit breakpoints key) = JNull \<longleftrightarrow> w = 0)
       \<and> (w \<noteq> 0 \<longrightarrow> mediaMinWidth (getBreakpointMin unit breakpoints key) =
             JStr (''@media (min-width: '' @ show_rat w @ ''px)''))"
    using assms by (auto simp: mediaMinWidth_def getBreakpointMin_def show_rat_not_Nil)
  have selectors: "map (\<lambda>k. mediaMinWidth (getBreakpointMin px twoBreakpoints k)) [''xs'', ''sm''] =
             [JNull, JStr ''@media (min-width: 576px)'']"
    by (simp add: twoBreakpoints_def mediaMinWidth_def getBreakpointMin_def show_rat_576)
  from general selectors expandSequence_twoBreakpoints show ?thesis
    by blast
qed

theorem C3_min_width_selector_witness:
  "map_of twoBreakpoints ''sm'' = Some 576
   \<and> px (JNum (Fin 576)) = JStr (show_rat 576 @ ''px'')
   \<and> mediaMinWidth (getBreakpointMin px twoBreakpoints ''sm'') = JStr ''@media (min-width: 576px)''
   \<and> mediaMinWidth (getBreakpointMin px twoBreakpoints ''sm'') \<noteq> JNull"
proof -
  have key: "map_of twoBreakpoints ''sm'' = Some 576"
    by (simp add: twoBreakpoints_def)
  have unit: "(576::rat) \<noteq> 0 \<longrightarrow> px (JNum (Fin 576)) = JStr (show_rat 576 @ ''px'')"
    by simp
  have "mediaMinWidth (getBreakpointMin px twoBreakpoints ''sm'') =
          JStr (''@media (min-width: '' @ show_rat 576 @ ''px)'')"
    using C3_min_width_selector [of twoBreakpoints "''sm''" 576 px] key unit by simp
  then show ?thesis
    using key by (simp add: show_rat_576)
qed

text \<open>
  C10: \<open>getBreakpointMax(breakpoints, key)\<close> is \<open>null\<close> when \<open>breakpoints[key]\<close> is 0, and
  otherwise the pixel length (the unit helper's result) of \<open>breakpoints[key]\<close> minus
  0.02, \<open>NaN\<close> standing for the difference when the table lacks the key. The width is
  the one stored at the key itself: two tables that agree at the key give the same
  result, and in the default table the key \<open>sm\<close> (576) gives 575.98px, not the
  767.98px of the next breakpoint \<open>md\<close> (768), which the key \<open>md\<close> gives.
\<close>

theorem C10_getBreakpointMax_of_own_key:
  "(map_of breakpoints key = Some 0 \<longrightarrow> getBreakpointMax unit breakpoints key = JNull)
   \<and> (\<forall>w. map_of breakpoints key = Some w \<and> w \<noteq> 0 \<longrightarrow>
          getBreakpointMax unit breakpoints key = unit (JNum (Fin (w - 2 / 100))))
   \<and> (map_of breakpoints key = None \<longrightarrow>
          getBreakpointMax unit breakpoints key = unit (JNum NaN))
   \<and> (map_of breakpoints key = map_of breakpoints' key \<longrightarrow>
          getBreakpointMax unit breakpoints key = getBreakpointMax unit breakpoints' key)
   \<and> getBreakpointMax px DEFAULT_BREAKPOINTS ''sm'' = JStr ''575.98px''
   \<and> getBreakpointMax px DEFAULT_BREAKPOINTS ''md'' = JStr ''767.98px''
   \<and> getBreakpointMax px DEFAULT_BREAKPOINTS ''xs'' = JNull"
  by (simp add: getBreakpointMax_def DEFAULT_BREAKPOINTS_def show_rat_575_98 show_rat_767_98)

theorem C10_getBreakpointMax_of_own_key_witness:
  "map_of twoBreakpoints ''sm'' = Some 576
   \<and> getBreakpointMax px twoBreakpoints ''sm'' = JStr ''575.98px''
   \<and> map_of twoBreakpoints ''xs'' = Some 0
   \<and> getBreakpointMax px twoBreakpoints ''xs'' = JNull"
  using C10_getBreakpointMax_of_own_key [of twoBreakpoints "''sm''" px twoBreakpoints]
    C10_getBreakpointMax_of_own_key [of twoBreakpoints "''xs''" px twoBreakpoints]
  by (simp add: twoBreakpoints_def show_rat_575_98)

section \<open>Unit Resolver: sign and unit\<close>

text \<open>
  C5: for a non-zero number \<open>n\<close>, \<open>toLength(n)\<close> is the number scaled by 4 followed by
  \<open>px\<close>; \<open>toLength(n)\<close> and \<open>toLength(-n)\<close> have the same digits and the same unit and
  differ in the sign only, which is that of the input; \<open>toLength(0)\<close> is \<open>"0"\<close>, with no
  unit.
\<close>

theorem C5_toLength_sign_and_unit:
  "(n \<noteq> 0 \<longrightarrow> toLength (JNum (Fin n)) = JStr (show_rat (4 * n) @ ''px''))
   \<and> (0 < n \<longrightarrow>
         (\<exists>digits. toLength (JNum (Fin n)) = JStr (digits @ ''px'')
            \<and> hd digits \<noteq> CHR ''-''
            \<and> toLength (JNum (Fin (- n))) = JStr (''-'' @ digits @ ''px'')))
   \<and> toLength (JNum (Fin 0)) = JStr ''0''"
  by (auto simp: SCALE_def show_rat_neg show_rat_pos_no_sign)

theorem C5_toLength_sign_and_unit_witness:
  "toLength (JNum (Fin 2)) = JStr ''8px'' \<and> toLength (JNum (Fin 0)) = JStr ''0''"
  using C5_toLength_sign_and_unit [of 2] by (simp add: show_rat_8)

section \<open>Negative tokens\<close>

text \<open>
  C4: for every theme with a positive number \<open>v\<close> at the path \<open>space.{name}\<close>, the
  property value \<open>"-" + name\<close> is resolved by the lookup of the unprefixed path and the
  negation of the result: the declaration is \<open>margin: -{v}px;\<close>. With the theme
  \<open>{ space: { md: 10 } }\<close>, \<open>margin: "-md"\<close> gives \<open>margin: -10px;\<close>.
\<close>

theorem C4_negative_token:
  assumes "get theme (''space.'' @ name) JUndefined = JNum (Fin v)" and "0 < v"
  shows "margin theme (JStr (''-'' @ name)) = ''margin: -'' @ show_rat v @ ''px;''"
  using assms by (simp add: margin_def getSpace_def cssDeclaration_def show_rat_neg)

lemma get_spaceTheme_md: "get spaceTheme (''space.'' @ ''md'') JUndefined = JNum (Fin 10)"
  by (simp add: get_def spaceTheme_def)

theorem C4_negative_token_witness:
  "get spaceTheme ''space.md'' JUndefined = JNum (Fin 10) \<and> (0::rat) < 10
   \<and> margin spaceTheme (JStr ''-md'') = ''margin: -10px;''"
  using get_spaceTheme_md C4_negative_token [OF get_spaceTheme_md]
  by (simp add: show_rat_10)

section \<open>Compositor: the last definition wins\<close>

lemma map_of_set_prop: "map_of (set_prop k v ps) = (map_of ps)(k \<mapsto> v)"
  by (induction ps) (auto simp: fun_eq_iff)

lemma map_of_fold_set_prop:
  "map_of (fold (\<lambda>(k, v) acc. set_prop k v acc) ds rules) = map_of rules ++ map_of (rev ds)"
proof (induction ds arbitrary: rules)
  case Nil
  then show ?case by simp
next
  case (Cons d ds)
  obtain k v where d: "d = (k, v)" by (cases d)
  have "map_of (fold (\<lambda>(k, v) acc. set_prop k v acc) (d # ds) rules) =
        map_of (set_prop k v rules) ++ map_of (rev ds)"
    by (simp add: d Cons.IH)
  also have "\<dots> = map_of rules ++ map_of (rev (d # ds))"
    by (simp add: d map_of_set_prop fun_eq_iff map_add_def split: option.splits)
  finally show ?case .
qed

lemma map_of_mergeDeclarations:
  "map_of (mergeDeclarations rules ds) key =
     (case map_of (rev ds) key of None \<Rightarrow> map_of rules key | Some v \<Rightarrow> Some v)"
  by (simp add: mergeDeclarations_def map_of_fold_set_prop map_add_def)

lemma compose_snoc:
  "compose expand (ds @ [d]) props =
     mergeDeclarations (compose expand ds props) (resolveDefinition expand d props)"
  by (simp add: compose_def)

lemma compose_later_silent:
  assumes "\<forall>d \<in> set later. declares expand d props key = None"
  shows "map_of (compose expand (ds @ later) props) key = map_of (compose expand ds props) key"
  using assms
proof (induction later rule: rev_induct)
  case Nil
  then show ?case by simp
next
  case (snoc d later)
  have "map_of (compose expand ((ds @ later) @ [d]) props) key =
        map_of (compose expand (ds @ later) props) key"
    using snoc.prems
    by (simp only: compose_snoc map_of_mergeDeclarations) (simp add: declares_def)
  with snoc show ?case by simp
qed

lemma compose_last_wins:
  assumes "declares expand d2 props key = Some v2"
    and "\<forall>d \<in> set later. declares expand d props key = None"
  shows "map_of (compose expand (earlier @ d2 # later) props) key = Some v2"
proof -
  have "map_of (compose expand ((earlier @ [d2]) @ later) props) key =
        map_of (compose expand (earlier @ [d2]) props) key"
    using assms(2) by (rule compose_later_silent)
  also have "\<dots> = Some v2"
    using assms(1) by (simp add: compose_snoc map_of_mergeDeclarations declares_def)
  finally show ?thesis by simp
qed

lemma resolveDefinition_cong:
  assumes "map_of props = map_of props'"
  shows "resolveDefinition expand d props = resolveDefinition expand d props'"
  unfolding resolveDefinition_def assms by (rule refl)

lemma compose_key_order:
  assumes "distinct (map fst props)" "distinct (map fst props')" "set props = set props'"
  shows "compose expand ds props = compose expand ds props'"
proof -
  have "map_of props = map_of props'"
    using assms by (simp add: map_of_inject_set)
  then have "resolveDefinition expand d props = resolveDefinition expand d props'" for d
    by (rule resolveDefinition_cong)
  then show ?thesis
    by (simp add: compose_def)
qed

text \<open>
  C2: when two composed Style Definitions declare a value for the identical final CSS
  property (the same key of the ruleset), the ruleset has the value of the one that is
  later in the composition order: for two definitions, and in any sequence where no
  definition after the later one declares the key. This holds for every property bag,
  and two bags with the same entries in a different key order give the same ruleset.
\<close>

theorem C2_compose_last_definition_wins:
  "(declares expand d1 props key = Some v1 \<and> declares expand d2 props key = Some v2 \<longrightarrow>
      map_of (compose expand [d1, d2] props) key = Some v2)
   \<and> (declares expand d2 props key = Some v2 \<and>
       (\<forall>d \<in> set later. declares expand d props key = None) \<longrightarrow>
      map_of (compose expand (earlier @ d2 # later) props) key = Some v2)
   \<and> (distinct (map fst props) \<and> distinct (map fst props') \<and> set props = set props' \<longrightarrow>
      compose expand ds props = compose expand ds props')"
proof (intro conjI impI)
  assume "declares expand d1 props key = Some v1 \<and> declares expand d2 props key = Some v2"
  then have "map_of (compose expand ([d1] @ d2 # []) props) key = Some v2"
    by (intro compose_last_wins) simp_all
  then show "map_of (compose expand [d1, d2] props) key = Some v2" by simp
next
  assume "declares expand d2 props key = Some v2 \<and>
          (\<forall>d \<in> set later. declares expand d props key = None)"
  then show "map_of (compose expand (earlier @ d2 # later) props) key = Some v2"
    by (intro compose_last_wins) simp_all
next
  assume "distinct (map fst props) \<and> distinct (map fst props') \<and> set props = set props'"
  then show "compose expand ds props = compose expand ds props'"
    by (intro compose_key_order) simp_all
qed

lemma declares_backgroundColor:
  "declares expandScalar backgroundColor [(''fill'', JStr ''red''), (''bg'', JStr ''blue'')]
     (JNull, ''background-color'') = Some (JStr ''blue'')"
  by (simp add: declares_def resolveDefinition_def backgroundColor_def expandScalar_def)

lemma declares_fillColor:
  "declares expandScalar fillColor [(''fill'', JStr ''red''), (''bg'', JStr ''blue'')]
     (JNull, ''background-color'') = Some (JStr ''red'')"
  by (simp add: declares_def resolveDefinition_def fillColor_def expandScalar_def)

theorem C2_compose_last_definition_wins_witness:
  "declares expandScalar backgroundColor [(''fill'', JStr ''red''), (''bg'', JStr ''blue'')]
     (JNull, ''background-color'') = Some (JStr ''blue'')
   \<and> declares expandScalar fillColor [(''fill'', JStr ''red''), (''bg'', JStr ''blue'')]
     (JNull, ''background-color'') = Some (JStr ''red'')
   \<and> map_of (compose expandScalar [backgroundColor, fillColor]
        [(''fill'', JStr ''red''), (''bg'', JStr ''blue'')]) (JNull, ''background-color'') =
      Some (JStr ''red'')
   \<and> map_of (compose expandScalar [fillColor, backgroundColor]
        [(''fill'', JStr ''red''), (''bg'', JStr ''blue'')]) (JNull, ''background-color'') =
      Some (JStr ''blue'')
   \<and> compose expandScalar [backgroundColor, fillColor]
        [(''fill'', JStr ''red''), (''bg'', JStr ''blue'')] =
      compose expandScalar [backgroundColor, fillColor]
        [(''bg'', JStr ''blue''), (''fill'', JStr ''red'')]"
  using declares_backgroundColor declares_fillColor
    C2_compose_last_definition_wins [of expandScalar backgroundColor
      "[(''fill'', JStr ''red''), (''bg'', JStr ''blue'')]" "(JNull, ''background-color'')"
      "JStr ''blue''" fillColor "JStr ''red''" "[]" "[]"
      "[(''bg'', JStr ''blue''), (''fill'', JStr ''red'')]" "[backgroundColor, fillColor]"]
    C2_compose_last_definition_wins [of expandScalar fillColor
      "[(''fill'', JStr ''red''), (''bg'', JStr ''blue'')]" "(JNull, ''background-color'')"
      "JStr ''red''" backgroundColor "JStr ''blue''" "[]" "[]"
      "[(''bg'', JStr ''blue''), (''fill'', JStr ''red'')]" "[backgroundColor, fillColor]"]
  by auto

section \<open>Color modes: the system mode, the provider, the init script\<close>

text \<open>
  C9, as the spec states it, fails: the \<open>change\<close> handler of \<open>dark\<close>, called with
  \<open>matches\<close> false while the tracked system mode is \<open>light\<close>, does not reset the tracked
  mode to \<open>null\<close>: it sets it to \<open>dark\<close>.
\<close>

theorem C9_other_mode_not_reset_counterexample:
  "systemModeHandler ''dark'' False (Some ''light'') = Some ''dark''
   \<and> systemModeHandler ''dark'' False (Some ''light'') \<noteq> None"
  by (simp add: systemModeHandler_def)

text \<open>
  C9, amended: when the \<open>change\<close> event of the media query of a tracked mode \<open>m\<close> fires
  with \<open>matches\<close> false and the tracked system mode is \<open>m\<close> itself, the tracked system
  mode is reset to \<open>null\<close>.
\<close>

theorem C9_same_mode_reset_to_null:
  "systemModeHandler m False (Some m) = None"
  by (simp add: systemModeHandler_def)

text \<open>The two misuse errors of the module.\<close>

lemma useColorMode_outside_provider:
  "useColorMode None = Inl (Error ''[useColorMode] requires the ColorModeProvider component'')"
  by (simp add: useColorMode_def)

lemma ColorModeProvider_without_theme:
  "ColorModeProvider n None e item =
     Some (Inl (Error ''[ColorModeProvider] requires ThemeProvider upper in the tree''))"
  by (simp add: ColorModeProvider_def)

text \<open>
  C7: \<open>useColorMode\<close> without a value of \<open>ColorModeContext\<close> and \<open>ColorModeProvider\<close>
  without a theme throw their errors at once. They are not the only throws: at the
  failing input, a theme that is present and has no \<open>colors.modes\<close> (the theme \<open>{}\<close>,
  or a theme with plain colors), the first render of \<open>ColorModeProvider\<close> throws a
  \<open>TypeError\<close>, whatever the browser and the storage. The memo of \<open>useSystemMode\<close>
  reads \<open>theme.colors.modes[mode]\<close> without the guard \<open>hasColorModes\<close> that the rest of
  the module uses.
\<close>

theorem C7_provider_throws_without_color_modes:
  "useColorMode (None :: hooks option) =
     Inl (Error ''[useColorMode] requires the ColorModeProvider component'')
   \<and> ColorModeProvider n None e item =
     Some (Inl (Error ''[ColorModeProvider] requires ThemeProvider upper in the tree''))
   \<and> \<not> hasColorModes emptyTheme \<and> \<not> hasColorModes plainTheme
   \<and> ColorModeProvider n (Some emptyTheme) e item = Some (Inl TypeError)
   \<and> ColorModeProvider n (Some plainTheme) e item = Some (Inl TypeError)"
  by (simp add: useColorMode_def ColorModeProvider_def useColorModeState_def
        systemModeConfigs_def hasMediaQueryEnabled_def emptyTheme_def plainTheme_def
        SYSTEM_MODES_def systemModeConfig_def theme_colors_modes_def hasColorModes_def)

lemma getInitScript_text:
  "getInitScript target =
     ''(function() { try {\<newline>    var mode = localStorage.getItem('xstyled-color-mode');\<newline>    if (mode) '' @
     (case target of None \<Rightarrow> ''document.body'' | Some t \<Rightarrow> t) @
     ''.classList.add('xstyled-color-mode-' + mode);\<newline>  } catch (e) {} })();''"
  by (simp add: getInitScript_def STORAGE_KEY_def COLOR_MODE_CLASS_PREFIX_def)

lemma initScript_cases:
  "(\<forall>err. getItem pg ''xstyled-color-mode'' = Inl err \<longrightarrow> initScript pg = pg)
   \<and> (getItem pg ''xstyled-color-mode'' = Inr None \<longrightarrow> initScript pg = pg)
   \<and> (getItem pg ''xstyled-color-mode'' = Inr (Some []) \<longrightarrow> initScript pg = pg)
   \<and> (\<forall>m cl. getItem pg ''xstyled-color-mode'' = Inr (Some m) \<and> m \<noteq> [] \<and>
              \<not> list_ex isAsciiWhitespace m \<and> classList pg = Some cl \<longrightarrow>
         initScript pg =
           pg\<lparr>classList := Some (if ''xstyled-color-mode-'' @ m \<in> set cl then cl
                                 else cl @ [''xstyled-color-mode-'' @ m])\<rparr>)
   \<and> (\<forall>m. getItem pg ''xstyled-color-mode'' = Inr (Some m) \<and> list_ex isAsciiWhitespace m \<longrightarrow>
         initScript pg = pg)
   \<and> (\<forall>m. getItem pg ''xstyled-color-mode'' = Inr (Some m) \<and> classList pg = None \<longrightarrow>
         initScript pg = pg)"
  by (simp add: initScript_def initScriptBody_def STORAGE_KEY_def COLOR_MODE_CLASS_PREFIX_def
        classList_add_def isAsciiWhitespace_def split: option.splits)

text \<open>
  C8, as the spec states it, fails: on a page whose storage holds the value
  \<open>high contrast\<close> under the key \<open>xstyled-color-mode\<close>, a value is present, and the script
  adds no class to the target: \<open>classList.add\<close> throws on a token with a space and the
  empty \<open>catch\<close> swallows the throw.
\<close>

theorem C8_whitespace_mode_counterexample:
  "getItem contrastPage STORAGE_KEY = Inr (Some ''high contrast'')
   \<and> classList contrastPage = Some [''app'']
   \<and> classList (initScript contrastPage) = Some [''app'']
   \<and> classList (initScript contrastPage) \<noteq> Some [''app'', ''xstyled-color-mode-high contrast'']"
  by (simp add: contrastPage_def STORAGE_KEY_def initScript_def initScriptBody_def
        COLOR_MODE_CLASS_PREFIX_def classList_add_def isAsciiWhitespace_def)

text \<open>
  C8, amended: \<open>getInitScript\<close> returns the text of a self-invoking function whose body
  is one \<open>try\<close> with an empty \<open>catch\<close>; the script reads the one storage key
  \<open>xstyled-color-mode\<close> and, when the stored value is a non-empty string without ASCII
  whitespace, adds the class \<open>xstyled-color-mode-\<close> + mode to the class list of the
  configured target (\<open>document.body\<close> by default). When the storage access throws, or
  nothing or the empty string is stored, or the stored value contains whitespace, or
  the class list of the target cannot be read, the script changes nothing and throws
  nothing.
\<close>

theorem C8_getInitScript:
  "getInitScript target =
     ''(function() { try {\<newline>    var mode = localStorage.getItem('xstyled-color-mode');\<newline>    if (mode) '' @
     (case target of None \<Rightarrow> ''document.body'' | Some t \<Rightarrow> t) @
     ''.classList.add('xstyled-color-mode-' + mode);\<newline>  } catch (e) {} })();''
   \<and> STORAGE_KEY = ''xstyled-color-mode''
   \<and> (\<forall>err. getItem pg STORAGE_KEY = Inl err \<longrightarrow> initScript pg = pg)
   \<and> (getItem pg STORAGE_KEY = Inr None \<longrightarrow> initScript pg = pg)
   \<and> (getItem pg STORAGE_KEY = Inr (Some []) \<longrightarrow> initScript pg = pg)
   \<and> (\<forall>m cl. getItem pg STORAGE_KEY = Inr (Some m) \<and> m \<noteq> [] \<and>
              \<not> list_ex isAsciiWhitespace m \<and> classList pg = Some cl \<longrightarrow>
         initScript pg =
           pg\<lparr>classList := Some (if ''xstyled-color-mode-'' @ m \<in> set cl then cl
                                 else cl @ [''xstyled-color-mode-'' @ m])\<rparr>)
   \<and> (\<forall>m. getItem pg STORAGE_KEY = Inr (Some m) \<and> list_ex isAsciiWhitespace m \<longrightarrow>
         initScript pg = pg)
   \<and> (\<forall>m. getItem pg STORAGE_KEY = Inr (Some m) \<and> classList pg = None \<longrightarrow>
         initScript pg = pg)"
  using getInitScript_text [of target] initScript_cases [of pg]
  by (simp only: STORAGE_KEY_def)

theorem C8_getInitScript_witness:
  "getItem darkPage STORAGE_KEY = Inr (Some ''dark'')
   \<and> classList (initScript darkPage) = Some [''app'', ''xstyled-color-mode-dark'']
   \<and> getItem blockedPage STORAGE_KEY = Inl (DOMException ''SecurityError'')
   \<and> initScript blockedPage = blockedPage
   \<and> getItem emptyStoredPage STORAGE_KEY = Inr (Some [])
   \<and> initScript emptyStoredPage = emptyStoredPage
   \<and> getItem contrastPage STORAGE_KEY = Inr (Some ''high contrast'')
   \<and> initScript contrastPage = contrastPage"
proof -
  have stored: "getItem darkPage STORAGE_KEY = Inr (Some ''dark'')"
    by (simp add: darkPage_def STORAGE_KEY_def)
  have classes: "classList darkPage = Some [''app'']"
    by (simp add: darkPage_def)
  have token: "''dark'' \<noteq> []" "\<not> list_ex isAsciiWhitespace ''dark''"
    by (simp_all add: isAsciiWhitespace_def)
  have "initScript darkPage =
          darkPage\<lparr>classList := Some (if ''xstyled-color-mode-'' @ ''dark'' \<in> set [''app'']
                                      then [''app'']
                                      else [''app''] @ [''xstyled-color-mode-'' @ ''dark''])\<rparr>"
    using C8_getInitScript [of None darkPage] stored classes token by blast
  then have added: "classList (initScript darkPage) = Some [''app'', ''xstyled-color-mode-dark'']"
    by simp
  have throws: "getItem blockedPage STORAGE_KEY = Inl (DOMException ''SecurityError'')"
    by (simp add: blockedPage_def)
  have blocked: "initScript blockedPage = blockedPage"
    using C8_getInitScript [of None blockedPage] throws by blast
  have blank: "getItem emptyStoredPage STORAGE_KEY = Inr (Some [])"
    by (simp add: emptyStoredPage_def STORAGE_KEY_def)
  have empty: "initScript emptyStoredPage = emptyStoredPage"
    using C8_getInitScript [of None emptyStoredPage] blank by blast
  have contrast: "getItem contrastPage STORAGE_KEY = Inr (Some ''high contrast'')"
    by (simp add: contrastPage_def STORAGE_KEY_def)
  have space: "list_ex isAsciiWhitespace ''high contrast''"
    by (simp add: isAsciiWhitespace_def)
  have spaced: "initScript contrastPage = contrastPage"
    using C8_getInitScript [of None contrastPage] contrast space by blast
  from stored added throws blocked blank empty contrast spaced show ?thesis
    by blast
qed

section \<open>Color modes: the styles of createColorStyles\<close>

lemma forEach_appends:
  assumes "\<And>x s. x \<in> set xs \<Longrightarrow> body x s = Inr (s @ f x)"
  shows "forEach body xs s = Inr (s @ concat (map f xs))"
  using assms by (induction xs arbitrary: s) simp_all

lemma concat_map_if_filter:
  "concat (map (\<lambda>x. if P x then f x else []) xs) = concat (map f (filter P xs))"
  by (induction xs) simp_all

lemma get_prop_truthy: "truthy modes \<Longrightarrow> get_prop modes m = Inr (modeEntry modes m)"
  by (cases modes) (simp_all add: modeEntry_def)

lemma map_of_spread_absent:
  assumes "k \<notin> set (Object_keys b)"
  shows "map_of (spread a b) k = map_of a k"
proof -
  have "k \<notin> fst ` set (rev (own_props b))"
    using assms by (simp add: Object_keys_def)
  then have "map_of (rev (own_props b)) k = None"
    by (simp add: map_of_eq_None_iff)
  then show ?thesis
    by (simp add: spread_def map_of_fold_set_prop map_add_def)
qed

lemma getModePropertiesDeclarations_plain:
  assumes c: "colors th = Some c" and modes: "map_of c ''modes'' = Some modes"
    and tr: "truthy modes" and plain: "plainOverrides modes m"
  shows "getModePropertiesDeclarations decls th m = Inr (modeDeclarations decls th c modes m)"
proof -
  have entry: "get_prop modes m = Inr (modeEntry modes m)"
    using tr by (rule get_prop_truthy)
  have modeTheme: "getModeTheme th m = Inr (th\<lparr>colors := Some (spread c (modeEntry modes m))\<rparr>)"
    by (simp add: getModeTheme_def c modes entry)
  have "map_of (spread c (modeEntry modes m)) ''modes'' = Some modes"
    using plain modes by (simp add: plainOverrides_def map_of_spread_absent)
  then show ?thesis
    by (simp add: getModePropertiesDeclarations_def modeTheme entry modeDeclarations_def)
qed

lemma mediaQueryStep_plain:
  assumes c: "colors th = Some c" and modes: "map_of c ''modes'' = Some modes"
    and tr: "truthy modes" and plain: "plainOverrides modes m"
  shows "mediaQueryStep decls th modes m styles =
           Inr (styles @ (if truthyEntry modes m
                          then mediaBlock (modeDeclarations decls th c modes) m else []))"
  using get_prop_truthy [OF tr, of m] getModePropertiesDeclarations_plain [OF c modes tr plain, of decls]
  by (simp add: mediaQueryStep_def truthyEntry_def mediaBlock_def getMediaQuery_def
        getColorModeQuery_def)

lemma classStep_plain:
  assumes c: "colors th = Some c" and modes: "map_of c ''modes'' = Some modes"
    and tr: "truthy modes" and plain: "plainOverrides modes m"
  shows "classStep decls th m styles =
           Inr (styles @ classBlock (modeDeclarations decls th c modes) m)"
  using getModePropertiesDeclarations_plain [OF c modes tr plain, of decls]
  by (simp add: classStep_def classBlock_def getColorModeClassName_def
        COLOR_MODE_CLASS_PREFIX_def)

lemma createColorStyles_amended:
  assumes c: "colors th = Some c" and modes: "map_of c ''modes'' = Some modes"
    and tr: "truthy modes"
    and plain: "\<forall>m \<in> set (SYSTEM_MODES @ getInitialColorModeName th # Object_keys modes).
                  plainOverrides modes m"
  shows "createColorStyles decls th target =
           Inr (Some (amendedColorStyles (case target of None \<Rightarrow> ''body'' | Some t \<Rightarrow> t)
                        (decls (without_key ''modes'' c) XSTYLED_COLORS_PREFIX th)
                        (modeDeclarations decls th c modes)
                        (useColorSchemeMediaQuery th \<noteq> Some False)
                        (getInitialColorModeName th) modes))"
proof -
  let ?block = "modeDeclarations decls th c modes"
  have has: "hasColorModes th"
    by (simp add: hasColorModes_def c modes tr)
  have read: "get_prop (JObj c) ''modes'' = Inr modes"
    by (simp add: modes)
  have media: "forEach (mediaQueryStep decls th modes) SYSTEM_MODES s =
                 Inr (s @ concat (map (mediaBlock ?block)
                                    (filter (truthyEntry modes) [''light'', ''dark''])))"
    for s
  proof -
    have "forEach (mediaQueryStep decls th modes) SYSTEM_MODES s =
            Inr (s @ concat (map (\<lambda>m. if truthyEntry modes m then mediaBlock ?block m else [])
                               SYSTEM_MODES))"
      using plain by (intro forEach_appends mediaQueryStep_plain [OF c modes tr]) auto
    then show ?thesis
      by (simp only: concat_map_if_filter) (simp only: SYSTEM_MODES_def)
  qed
  have cls: "forEach (classStep decls th) (getInitialColorModeName th # Object_keys modes) s =
               Inr (s @ concat (map (classBlock ?block)
                                  (getInitialColorModeName th # Object_keys modes)))"
    for s
    using plain by (intro forEach_appends classStep_plain [OF c modes tr]) auto
  show ?thesis
    by (simp add: createColorStyles_def has c modes media cls amendedColorStyles_def
          del: forEach.simps split: option.splits)
qed

lemma createColorStyles_without_modes:
  "\<not> hasColorModes th \<Longrightarrow> createColorStyles decls th target = Inr None"
  by (simp add: createColorStyles_def)


text \<open>
  C6, as the spec states it, fails: in the theme
  \<open>{ colors: { primary: 'red', modes: { dark: null } } }\<close> the mode \<open>dark\<close> is declared (it is
  a key of \<open>colors.modes\<close>, and it gets its class block), and the media query is not
  disabled; yet the result has no \<open>@media (prefers-color-scheme: dark)\<close> block, which
  the claim's words put there.
\<close>

theorem C6_null_mode_counterexample:
  "''dark'' \<in> set (Object_keys (JObj [(''dark'', JNull)]))
   \<and> createColorStyles sampleDeclarations nullDarkTheme None =
       Inr (Some ''body{--xstyled-colors-primary: red;&.xstyled-color-mode-default{--xstyled-colors-primary: red;}&.xstyled-color-mode-dark{--xstyled-colors-primary: red;}}'')
   \<and> createColorStyles sampleDeclarations nullDarkTheme None \<noteq>
       Inr (Some (claimedColorStyles ''body''
                    (sampleDeclarations [(''primary'', JStr ''red'')] XSTYLED_COLORS_PREFIX nullDarkTheme)
                    (modeDeclarations sampleDeclarations nullDarkTheme
                       [(''primary'', JStr ''red''), (''modes'', JObj [(''dark'', JNull)])]
                       (JObj [(''dark'', JNull)]))
                    True ''default'' (JObj [(''dark'', JNull)])))"
  by code_simp

text \<open>
  C6, amended: for every theme declaring \<open>colors.modes\<close> (whose mode entries do not
  themselves carry a property \<open>modes\<close>), \<open>createColorStyles\<close> returns a string scoped
  under the target selector that contains, in order: the base custom-property
  declarations of the colors; then, unless \<open>useColorSchemeMediaQuery\<close> is exactly
  \<open>false\<close>, one \<open>@media (prefers-color-scheme: m)\<close> block for each of the modes \<open>light\<close>
  and \<open>dark\<close> whose entry in \<open>colors.modes\<close> is truthy; then one class-scoped block
  \<open>&.xstyled-color-mode-{m}\<close> for the initial mode name followed by every key of
  \<open>colors.modes\<close>. For a theme without \<open>colors.modes\<close> it returns \<open>null\<close>.
\<close>

theorem C6_createColorStyles_blocks:
  "(colors th = Some c \<and> map_of c ''modes'' = Some modes \<and> truthy modes \<and>
    (\<forall>m \<in> set (SYSTEM_MODES @ getInitialColorModeName th # Object_keys modes).
       plainOverrides modes m) \<longrightarrow>
      createColorStyles decls th target =
        Inr (Some (amendedColorStyles (case target of None \<Rightarrow> ''body'' | Some t \<Rightarrow> t)
                     (decls (without_key ''modes'' c) XSTYLED_COLORS_PREFIX th)
                     (modeDeclarations decls th c modes)
                     (useColorSchemeMediaQuery th \<noteq> Some False)
                     (getInitialColorModeName th) modes)))
   \<and> (\<not> hasColorModes th \<longrightarrow> createColorStyles decls th target = Inr None)"
  using createColorStyles_amended [of th c modes decls target]
    createColorStyles_without_modes [of th decls target]
  by blast

lemma amendedColorStyles_lightDarkTheme:
  "amendedColorStyles ''body''
     (sampleDeclarations
        (without_key ''modes''
           [(''primary'', JStr ''white''),
            (''modes'', JObj [(''light'', JObj [(''primary'', JStr ''white'')]),
                             (''dark'', JObj [(''primary'', JStr ''black'')])])])
        XSTYLED_COLORS_PREFIX lightDarkTheme)
     (modeDeclarations sampleDeclarations lightDarkTheme
        [(''primary'', JStr ''white''),
         (''modes'', JObj [(''light'', JObj [(''primary'', JStr ''white'')]),
                          (''dark'', JObj [(''primary'', JStr ''black'')])])]
        (JObj [(''light'', JObj [(''primary'', JStr ''white'')]),
               (''dark'', JObj [(''primary'', JStr ''black'')])]))
     True ''default''
     (JObj [(''light'', JObj [(''primary'', JStr ''white'')]),
            (''dark'', JObj [(''primary'', JStr ''black'')])]) =
   ''body{--xstyled-colors-primary: white;@media (prefers-color-scheme: light){--xstyled-colors-primary: white;}@media (prefers-color-scheme: dark){--xstyled-colors-primary: black;}&.xstyled-color-mode-default{--xstyled-colors-primary: white;}&.xstyled-color-mode-light{--xstyled-colors-primary: white;}&.xstyled-color-mode-dark{--xstyled-colors-primary: black;}}''"
  by code_simp

theorem C6_createColorStyles_blocks_witness:
  "createColorStyles sampleDeclarations lightDarkTheme None =
     Inr (Some ''body{--xstyled-colors-primary: white;@media (prefers-color-scheme: light){--xstyled-colors-primary: white;}@media (prefers-color-scheme: dark){--xstyled-colors-primary: black;}&.xstyled-color-mode-default{--xstyled-colors-primary: white;}&.xstyled-color-mode-light{--xstyled-colors-primary: white;}&.xstyled-color-mode-dark{--xstyled-colors-primary: black;}}'')
   \<and> \<not> hasColorModes plainTheme
   \<and> createColorStyles sampleDeclarations plainTheme None = Inr None"
proof -
  let ?modes = "JObj [(''light'', JObj [(''primary'', JStr ''white'')]),
                      (''dark'', JObj [(''primary'', JStr ''black'')])]"
  let ?c = "[(''primary'', JStr ''white''), (''modes'', ?modes)]"
  have c: "colors lightDarkTheme = Some ?c"
    by (simp add: lightDarkTheme_def emptyTheme_def)
  have modes: "map_of ?c ''modes'' = Some ?modes"
    by simp
  have plain: "\<forall>m \<in> set (SYSTEM_MODES @ getInitialColorModeName lightDarkTheme # Object_keys ?modes).
                 plainOverrides ?modes m"
    by (simp add: SYSTEM_MODES_def getInitialColorModeName_def lightDarkTheme_def
          emptyTheme_def Object_keys_def plainOverrides_def modeEntry_def)
  have flags: "useColorSchemeMediaQuery lightDarkTheme \<noteq> Some False"
      "getInitialColorModeName lightDarkTheme = ''default''"
    by (simp_all add: lightDarkTheme_def emptyTheme_def getInitialColorModeName_def)
  have "createColorStyles sampleDeclarations lightDarkTheme None =
          Inr (Some (amendedColorStyles ''body''
                       (sampleDeclarations (without_key ''modes'' ?c) XSTYLED_COLORS_PREFIX
                          lightDarkTheme)
                       (modeDeclarations sampleDeclarations lightDarkTheme ?c ?modes)
                       True ''default'' ?modes))"
    using C6_createColorStyles_blocks [of lightDarkTheme ?c ?modes sampleDeclarations None]
      c modes plain flags
    by simp
  then have styled: "createColorStyles sampleDeclarations lightDarkTheme None =
     Inr (Some ''body{--xstyled-colors-primary: white;@media (prefers-color-scheme: light){--xstyled-colors-primary: white;}@media (prefers-color-scheme: dark){--xstyled-colors-primary: black;}&.xstyled-color-mode-default{--xstyled-colors-primary: white;}&.xstyled-color-mode-light{--xstyled-colors-primary: white;}&.xstyled-color-mode-dark{--xstyled-colors-primary: black;}}'')"
    by (simp only: amendedColorStyles_lightDarkTheme)
  have none: "\<not> hasColorModes plainTheme"
    by (simp add: hasColorModes_def plainTheme_def emptyTheme_def)
  then have "createColorStyles sampleDeclarations plainTheme None = Inr None"
    using C6_createColorStyles_blocks [of plainTheme _ _ sampleDeclarations None] by blast
  with styled none show ?thesis
    by blast
qed

section \<open>Color modes: the state machine of useColorModeState\<close>

lemma settle_same: "settle n th e r r = Some r"
  by (cases n) simp_all




lemma getDefaultColorModeName_truthy: "getDefaultColorModeName th \<noteq> []"
  by (simp add: getDefaultColorModeName_def getInitialColorModeName_def split: option.splits)











end
